theory Spec2Isabelle
  imports Main
begin

section \<open>Values exchanged with the upstream service\<close>

text \<open>
  The proxy in \<^verbatim>\<open>main.py\<close> handles decoded JSON as ordinary Python values: a
  \<^verbatim>\<open>dict\<close>, a \<^verbatim>\<open>list\<close>, a \<^verbatim>\<open>str\<close>, a number, a boolean or \<^verbatim>\<open>None\<close>.
  An object is kept as an association list whose first binding of a key is the one a
  lookup finds. Numbers are integers here; no function below looks inside a number.
\<close>

datatype json =
    JNull
  | JBool bool
  | JNum int
  | JStr string
  | JArr "json list"
  | JObj "(string \<times> json) list"

text \<open>
  Exceptions that can leave a handler. \<open>HTTPException c d\<close> is the exception whose
  attributes \<^verbatim>\<open>status_code\<close> and \<^verbatim>\<open>detail\<close> are \<open>c\<close> and \<open>d\<close>; it is the only one
  the source raises on purpose. The others are raised by what the source calls: by
  \<^verbatim>\<open>response.json()\<close> (\<open>JSONDecodeError\<close>, and \<open>UnicodeDecodeError\<close> for bytes that
  are not text), by \<^verbatim>\<open>in\<close>, subscripting and \<^verbatim>\<open>.get\<close> on a decoded body, by the
  constructor of \<^verbatim>\<open>HTTPException\<close> (\<open>ValueError\<close>) and by the client while it builds
  a request (\<open>UnicodeEncodeError\<close>). The source catches none of them.
\<close>

datatype error =
    HTTPException int json
  | JSONDecodeError
  | UnicodeDecodeError
  | UnicodeEncodeError
  | ValueError
  | TypeError
  | KeyError
  | AttributeError

text \<open>
  The exceptions of \<^verbatim>\<open>httpx\<close> that the source names, each with its message.
  \<open>RequestError\<close> stands for every \<^verbatim>\<open>httpx.RequestError\<close> that is neither a
  \<^verbatim>\<open>ConnectError\<close> nor a \<^verbatim>\<open>TimeoutException\<close>.
\<close>

datatype httpx_error =
    ConnectError string
  | TimeoutException string
  | RequestError string

fun str_of_error :: "httpx_error \<Rightarrow> string" where
  "str_of_error (ConnectError m) = m"
| "str_of_error (TimeoutException m) = m"
| "str_of_error (RequestError m) = m"

text \<open>The first \<^verbatim>\<open>except\<close> clause of \<^verbatim>\<open>call_wan_api_create\<close> catches exactly these.\<close>

fun is_connect_or_timeout :: "httpx_error \<Rightarrow> bool" where
  "is_connect_or_timeout (ConnectError m) = True"
| "is_connect_or_timeout (TimeoutException m) = True"
| "is_connect_or_timeout (RequestError m) = False"

text \<open>
  What \<^verbatim>\<open>response.json()\<close> does with the bytes of a body: it returns the decoded
  value, or raises \<^verbatim>\<open>JSONDecodeError\<close> for text that is not JSON, or raises
  \<^verbatim>\<open>UnicodeDecodeError\<close> for bytes that are not text in a Unicode encoding.
\<close>

datatype decoding = Decoded json | NotJSON | NotUnicode

text \<open>
  A response of the upstream: its status code, its raw text (\<^verbatim>\<open>response.text\<close>, which
  replaces undecodable bytes and never raises), and what \<^verbatim>\<open>response.json()\<close> does.
\<close>

record response =
  status_code :: int
  body_text :: string
  decoded :: decoding

text \<open>
  How a call of \<^verbatim>\<open>client.post\<close> or \<^verbatim>\<open>client.get\<close> ends: with a response, with an
  exception of \<^verbatim>\<open>httpx\<close>, or with another exception that the client raises while it
  builds the request, before anything is sent (\<^verbatim>\<open>UnicodeEncodeError\<close> for a header value
  that is not ASCII).
\<close>

datatype reply = Raised httpx_error | Responded response | Refused error

datatype http_method = GET | POST

record http_request =
  http_method :: http_method
  url :: string
  headers :: "(string \<times> string) list"
  json_body :: "json option"

text \<open>
  What a handler does besides returning: requests sent through the shared client, sleeps
  (in seconds) and lines printed. A run is the list of these events in the order they
  happen.
\<close>

datatype printed =
    ApiErrorResponse string
  | AttemptFailed nat httpx_error
  | NetworkErrorOccurred httpx_error
  | StatusCheckNetworkError httpx_error

datatype event = Sent http_request | Slept nat | Printed printed

fun is_sent :: "event \<Rightarrow> bool" where
  "is_sent (Sent r) = True"
| "is_sent (Slept n) = False"
| "is_sent (Printed p) = False"

definition sent_count :: "event list \<Rightarrow> nat" where
  "sent_count evs = length (filter is_sent evs)"

text \<open>
  The client and the upstream service behind it decide the outcome of each call from the
  number of requests sent before it and from the request itself. A request the client
  refuses is not sent.
\<close>

type_synonym upstream = "nat \<Rightarrow> http_request \<Rightarrow> reply"

definition send :: "upstream \<Rightarrow> http_request \<Rightarrow> event list \<Rightarrow> reply \<times> event list" where
  "send up req evs =
     (case up (sent_count evs) req of
        Refused x \<Rightarrow> (Refused x, evs)
      | Raised e \<Rightarrow> (Raised e, evs @ [Sent req])
      | Responded r \<Rightarrow> (Responded r, evs @ [Sent req]))"





section \<open>The Python operations the source applies to decoded values\<close>

text \<open>\<^verbatim>\<open>k in s\<close> for two strings: \<open>k\<close> occurs in \<open>s\<close> as a contiguous run.\<close>

primrec py_substring :: "string \<Rightarrow> string \<Rightarrow> bool" where
  "py_substring k [] = (k = [])"
| "py_substring k (c # cs) = (take (length k) (c # cs) = k \<or> py_substring k cs)"

text \<open>\<^verbatim>\<open>k in v\<close> for a string \<open>k\<close>.\<close>

fun py_in :: "string \<Rightarrow> json \<Rightarrow> error + bool" where
  "py_in k (JObj kvs) = Inr (map_of kvs k \<noteq> None)"
| "py_in k (JArr xs) = Inr (JStr k \<in> set xs)"
| "py_in k (JStr s) = Inr (py_substring k s)"
| "py_in k JNull = Inl TypeError"
| "py_in k (JBool b) = Inl TypeError"
| "py_in k (JNum n) = Inl TypeError"

text \<open>\<^verbatim>\<open>v[k]\<close> for a string \<open>k\<close>.\<close>

fun py_getitem :: "json \<Rightarrow> string \<Rightarrow> error + json" where
  "py_getitem (JObj kvs) k = (case map_of kvs k of None \<Rightarrow> Inl KeyError | Some v \<Rightarrow> Inr v)"
| "py_getitem (JArr xs) k = Inl TypeError"
| "py_getitem (JStr s) k = Inl TypeError"
| "py_getitem JNull k = Inl TypeError"
| "py_getitem (JBool b) k = Inl TypeError"
| "py_getitem (JNum n) k = Inl TypeError"

text \<open>\<^verbatim>\<open>v.get(k, d)\<close>: only a \<^verbatim>\<open>dict\<close> has the method.\<close>

fun py_get :: "json \<Rightarrow> string \<Rightarrow> json \<Rightarrow> error + json" where
  "py_get (JObj kvs) k d = Inr (case map_of kvs k of None \<Rightarrow> d | Some v \<Rightarrow> v)"
| "py_get (JArr xs) k d = Inl AttributeError"
| "py_get (JStr s) k d = Inl AttributeError"
| "py_get JNull k d = Inl AttributeError"
| "py_get (JBool b) k d = Inl AttributeError"
| "py_get (JNum n) k d = Inl AttributeError"

text \<open>
  A value inside an f-string. A \<^verbatim>\<open>str\<close> is inserted as it is; for the other values the
  text Python's \<^verbatim>\<open>str\<close> produces is a parameter \<open>fmt\<close> of the model.
\<close>

fun py_format :: "(json \<Rightarrow> string) \<Rightarrow> json \<Rightarrow> string" where
  "py_format fmt (JStr s) = s"
| "py_format fmt v = fmt v"

text \<open>\<^verbatim>\<open>response.json()\<close>\<close>

definition decode_json :: "response \<Rightarrow> error + json" where
  "decode_json r =
     (case decoded r of
        Decoded j \<Rightarrow> Inr j
      | NotJSON \<Rightarrow> Inl JSONDecodeError
      | NotUnicode \<Rightarrow> Inl UnicodeDecodeError)"

text \<open>
  \<^verbatim>\<open>HTTPException(status_code=c, detail=d)\<close>. The constructor keeps every detail but
  \<^verbatim>\<open>None\<close>, for which it takes the phrase of \<^verbatim>\<open>http.HTTPStatus(c)\<close>; that lookup raises
  \<^verbatim>\<open>ValueError\<close> for a code the table does not have. The table belongs to the Python
  library and is a parameter \<open>phrase\<close> of the model. Where the source passes a string as
  detail, the model writes the exception directly.
\<close>

definition new_HTTPException :: "(int \<Rightarrow> string option) \<Rightarrow> int \<Rightarrow> json \<Rightarrow> error" where
  "new_HTTPException phrase c d =
     (if d = JNull then
        (case phrase c of None \<Rightarrow> ValueError | Some p \<Rightarrow> HTTPException c (JStr p))
      else HTTPException c d)"

section \<open>Configuration\<close>

definition BASE_URL :: string where
  "BASE_URL = ''https://dashscope-intl.aliyuncs.com/api/v1''"

definition MODEL_NAME :: string where
  "MODEL_NAME = ''wan2.6-t2v''"

text \<open>
  \<^verbatim>\<open>API_KEY = os.getenv("DASHSCOPE_API_KEY")\<close> is \<open>None\<close> when the variable is unset.
  \<^verbatim>\<open>not API_KEY\<close> holds for \<open>None\<close> and for the empty string.
\<close>

fun py_not :: "string option \<Rightarrow> bool" where
  "py_not None = True"
| "py_not (Some k) = (k = [])"

text \<open>\<^verbatim>\<open>f"Bearer {API_KEY}"\<close>: an unset key is inserted as the text \<^verbatim>\<open>None\<close>.\<close>

fun bearer :: "string option \<Rightarrow> string" where
  "bearer None = ''Bearer None''"
| "bearer (Some k) = ''Bearer '' @ k"

record VideoGenerationRequest =
  prompt :: string
  negative_prompt :: "string option"
  size :: string
  duration :: int
  audio :: bool
  prompt_extend :: bool

section \<open>Creating a task\<close>

fun optional_str :: "string option \<Rightarrow> json" where
  "optional_str None = JNull"
| "optional_str (Some s) = JStr s"

definition payload :: "VideoGenerationRequest \<Rightarrow> json" where
  "payload data =
     JObj [(''model'', JStr MODEL_NAME),
           (''input'', JObj [(''prompt'', JStr (prompt data)),
                             (''negative_prompt'', optional_str (negative_prompt data))]),
           (''parameters'', JObj [(''size'', JStr (size data)),
                                  (''duration'', JNum (duration data)),
                                  (''prompt_extend'', JBool (prompt_extend data)),
                                  (''audio'', JBool (audio data))])]"

definition create_request :: "string option \<Rightarrow> VideoGenerationRequest \<Rightarrow> http_request" where
  "create_request API_KEY data =
     \<lparr>http_method = POST,
      url = BASE_URL @ ''/services/aigc/video-generation/video-synthesis'',
      headers = [(''Content-Type'', ''application/json''),
                 (''Authorization'', bearer API_KEY),
                 (''X-DashScope-Async'', ''enable'')],
      json_body = Some (payload data)\<rparr>"

definition max_retries :: nat where
  "max_retries = 3"

text \<open>
  The condition
  \<^verbatim>\<open>"output" not in response_json or "task_id" not in response_json["output"]\<close>,
  evaluated left to right with the short cut of \<^verbatim>\<open>or\<close>.
\<close>

definition missing_task_id :: "json \<Rightarrow> error + bool" where
  "missing_task_id response_json =
     (case py_in ''output'' response_json of
        Inl e \<Rightarrow> Inl e
      | Inr has_output \<Rightarrow>
          if \<not> has_output then Inr True
          else (case py_getitem response_json ''output'' of
                  Inl e \<Rightarrow> Inl e
                | Inr output \<Rightarrow>
                    (case py_in ''task_id'' output of
                       Inl e \<Rightarrow> Inl e
                     | Inr has_id \<Rightarrow> Inr (\<not> has_id))))"

text \<open>The body of the \<^verbatim>\<open>try\<close> block after \<^verbatim>\<open>client.post\<close> has returned a response.\<close>

definition on_response ::
  "(int \<Rightarrow> string option) \<Rightarrow> response \<Rightarrow> event list \<Rightarrow> (error + json) \<times> event list" where
  "on_response phrase r evs =
     (if status_code r \<noteq> 200 then
        (let evs1 = evs @ [Printed (ApiErrorResponse (body_text r))] in
         case decode_json r of
           Inl e \<Rightarrow> (Inl e, evs1)
         | Inr detail \<Rightarrow> (Inl (new_HTTPException phrase (status_code r) detail), evs1))
      else
        (case decode_json r of
           Inl e \<Rightarrow> (Inl e, evs)
         | Inr j \<Rightarrow>
             (case missing_task_id j of
                Inl e \<Rightarrow> (Inl e, evs)
              | Inr True \<Rightarrow>
                  (Inl (HTTPException 500 (JStr ''API response missing task_id'')), evs)
              | Inr False \<Rightarrow>
                  (case py_getitem j ''output'' of
                     Inl e \<Rightarrow> (Inl e, evs)
                   | Inr output \<Rightarrow> (py_getitem output ''task_id'', evs)))))"

text \<open>
  \<^verbatim>\<open>for attempt in range(max_retries)\<close>: the loop runs over the list of attempt
  numbers that are left. The empty list is the line after the loop.
\<close>

fun attempts ::
  "(int \<Rightarrow> string option) \<Rightarrow> upstream \<Rightarrow> http_request \<Rightarrow> nat list \<Rightarrow> event list \<Rightarrow>
     (error + json) \<times> event list" where
  "attempts phrase up req [] evs =
     (Inl (HTTPException 500 (JStr ''Unknown error during API call'')), evs)"
| "attempts phrase up req (attempt # rest) evs =
     (case send up req evs of
        (Responded r, evs1) \<Rightarrow> on_response phrase r evs1
      | (Raised e, evs1) \<Rightarrow>
          if is_connect_or_timeout e then
            (let evs2 = evs1 @ [Printed (AttemptFailed (attempt + 1) e)] in
             if attempt = max_retries - 1 then
               (Inl (HTTPException 500 (JStr (''Network Error: '' @ str_of_error e))),
                evs2 @ [Printed (NetworkErrorOccurred e)])
             else attempts phrase up req rest (evs2 @ [Slept 1]))
          else
            (Inl (HTTPException 500 (JStr (''Network Error: '' @ str_of_error e))),
             evs1 @ [Printed (NetworkErrorOccurred e)])
      | (Refused x, evs1) \<Rightarrow> (Inl x, evs1))"

definition call_wan_api_create ::
  "(int \<Rightarrow> string option) \<Rightarrow> string option \<Rightarrow> upstream \<Rightarrow> VideoGenerationRequest \<Rightarrow> event list \<Rightarrow>
     (error + json) \<times> event list" where
  "call_wan_api_create phrase API_KEY up data evs =
     attempts phrase up (create_request API_KEY data) [0..<max_retries] evs"

definition generate_video ::
  "(int \<Rightarrow> string option) \<Rightarrow> string option \<Rightarrow> upstream \<Rightarrow> VideoGenerationRequest \<Rightarrow> event list \<Rightarrow>
     (error + json) \<times> event list" where
  "generate_video phrase API_KEY up request evs =
     (if py_not API_KEY then
        (Inl (HTTPException 500 (JStr ''API Key not configured on server.'')), evs)
      else
        (case call_wan_api_create phrase API_KEY up request evs of
           (Inl e, evs1) \<Rightarrow> (Inl e, evs1)
         | (Inr task_id, evs1) \<Rightarrow>
             (Inr (JObj [(''task_id'', task_id),
                         (''message'', JStr ''Task created successfully'')]), evs1)))"

section \<open>Polling a task\<close>

definition status_request :: "string option \<Rightarrow> string \<Rightarrow> http_request" where
  "status_request API_KEY task_id =
     \<lparr>http_method = GET,
      url = BASE_URL @ ''/tasks/'' @ task_id,
      headers = [(''Authorization'', bearer API_KEY)],
      json_body = None\<rparr>"

definition call_wan_api_status ::
  "string option \<Rightarrow> upstream \<Rightarrow> string \<Rightarrow> event list \<Rightarrow> (error + json) \<times> event list" where
  "call_wan_api_status API_KEY up task_id evs =
     (case send up (status_request API_KEY task_id) evs of
        (Responded r, evs1) \<Rightarrow> (decode_json r, evs1)
      | (Raised e, evs1) \<Rightarrow>
          (Inl (HTTPException 500 (JStr (str_of_error e))),
           evs1 @ [Printed (StatusCheckNetworkError e)])
      | (Refused x, evs1) \<Rightarrow> (Inl x, evs1))"

record StatusReport =
  status :: json
  progress_msg :: string
  video_url :: json
  usage :: json

text \<open>
  The part of \<^verbatim>\<open>check_status\<close> after the upstream body has arrived: \<^verbatim>\<open>response_data\<close>
  is built and then updated by the \<^verbatim>\<open>if\<close>/\<^verbatim>\<open>elif\<close>. Python's \<^verbatim>\<open>None\<close> is \<open>JNull\<close>.
\<close>

definition response_data :: "(json \<Rightarrow> string) \<Rightarrow> json \<Rightarrow> error + StatusReport" where
  "response_data fmt result =
     (case py_get result ''output'' (JObj []) of
        Inl e \<Rightarrow> Inl e
      | Inr output \<Rightarrow>
     (case py_get output ''task_status'' (JStr ''UNKNOWN'') of
        Inl e \<Rightarrow> Inl e
      | Inr st \<Rightarrow>
     (case py_get result ''usage'' (JObj []) of
        Inl e \<Rightarrow> Inl e
      | Inr us \<Rightarrow>
     (let data = \<lparr>status = st, progress_msg = ''Processing...'', video_url = JNull, usage = us\<rparr> in
      if st = JStr ''SUCCEEDED'' then
        (case py_get output ''video_url'' JNull of
           Inl e \<Rightarrow> Inl e
         | Inr v \<Rightarrow> Inr (data\<lparr>video_url := v, progress_msg := ''Completed''\<rparr>))
      else if st = JStr ''FAILED'' then
        (case py_get output ''message'' (JStr ''Unknown error'') of
           Inl e \<Rightarrow> Inl e
         | Inr m \<Rightarrow> Inr (data\<lparr>progress_msg := ''Failed: '' @ py_format fmt m\<rparr>))
      else Inr data))))"

definition check_status ::
  "string option \<Rightarrow> upstream \<Rightarrow> (json \<Rightarrow> string) \<Rightarrow> string \<Rightarrow> event list \<Rightarrow> (error + StatusReport) \<times> event list" where
  "check_status API_KEY up fmt task_id evs =
     (case call_wan_api_status API_KEY up task_id evs of
        (Inl e, evs1) \<Rightarrow> (Inl e, evs1)
      | (Inr result, evs1) \<Rightarrow> (response_data fmt result, evs1))"

section \<open>Reading the spec's field paths\<close>

text \<open>
  The spec names parts of a body by paths such as \<^verbatim>\<open>output.task_status\<close>. A member
  of a value is the binding of the key when the value is an object, and is absent
  otherwise.
\<close>

fun field :: "json \<Rightarrow> string \<Rightarrow> json option" where
  "field (JObj kvs) k = map_of kvs k"
| "field (JArr xs) k = None"
| "field (JStr s) k = None"
| "field JNull k = None"
| "field (JBool b) k = None"
| "field (JNum n) k = None"

definition path2 :: "json \<Rightarrow> string \<Rightarrow> string \<Rightarrow> json option" where
  "path2 j k1 k2 = (case field j k1 of None \<Rightarrow> None | Some v \<Rightarrow> field v k2)"

text \<open>
  The bodies the upstream API documents: an object whose \<^verbatim>\<open>output\<close> member, when there
  is one, is an object too.
\<close>

fun object_shaped :: "json \<Rightarrow> bool" where
  "object_shaped (JObj kvs) =
     (case map_of kvs ''output'' of None \<Rightarrow> True | Some (JObj out) \<Rightarrow> True | Some v \<Rightarrow> False)"
| "object_shaped (JArr xs) = False"
| "object_shaped (JStr s) = False"
| "object_shaped JNull = False"
| "object_shaped (JBool b) = False"
| "object_shaped (JNum n) = False"

text \<open>
  The status report as section 4.4 of the spec words it, written over the paths of the
  body and not over the steps of \<^verbatim>\<open>check_status\<close>: the status is
  \<^verbatim>\<open>output.task_status\<close> or \<^verbatim>\<open>UNKNOWN\<close>; \<^verbatim>\<open>SUCCEEDED\<close> sets the video URL and the
  message \<^verbatim>\<open>Completed\<close>; \<^verbatim>\<open>FAILED\<close> gives \<^verbatim>\<open>Failed: \<close> and \<^verbatim>\<open>output.message\<close> or a
  fallback; everything else is \<^verbatim>\<open>Processing...\<close> with no video URL.
\<close>

definition spec_report :: "(json \<Rightarrow> string) \<Rightarrow> json \<Rightarrow> StatusReport" where
  "spec_report fmt body =
     (let st = (case path2 body ''output'' ''task_status'' of
                  None \<Rightarrow> JStr ''UNKNOWN'' | Some s \<Rightarrow> s);
          us = (case field body ''usage'' of None \<Rightarrow> JObj [] | Some u \<Rightarrow> u)
      in if st = JStr ''SUCCEEDED'' then
           \<lparr>status = st, progress_msg = ''Completed'',
            video_url = (case path2 body ''output'' ''video_url'' of
                           None \<Rightarrow> JNull | Some v \<Rightarrow> v),
            usage = us\<rparr>
         else if st = JStr ''FAILED'' then
           \<lparr>status = st,
            progress_msg = ''Failed: '' @
              (case path2 body ''output'' ''message'' of
                 None \<Rightarrow> ''Unknown error'' | Some m \<Rightarrow> py_format fmt m),
            video_url = JNull, usage = us\<rparr>
         else
           \<lparr>status = st, progress_msg = ''Processing...'', video_url = JNull, usage = us\<rparr>)"

section \<open>Sample inputs\<close>

definition sample_request :: VideoGenerationRequest where
  "sample_request =
     \<lparr>prompt = ''a cat on a skateboard'', negative_prompt = None, size = ''1280*720'',
      duration = 5, audio = True, prompt_extend = True\<rparr>"

definition sample_key :: "string option" where
  "sample_key = Some ''sk-test''"

text \<open>An upstream that refuses every connection.\<close>

definition refusing :: upstream where
  "refusing n req = Raised (ConnectError ''All connection attempts failed'')"

text \<open>An upstream that gives the same response to every request.\<close>

definition always :: "response \<Rightarrow> upstream" where
  "always r n req = Responded r"

definition replying :: "int \<Rightarrow> json \<Rightarrow> upstream" where
  "replying c body n req = Responded \<lparr>status_code = c, body_text = [], decoded = Decoded body\<rparr>"

definition task_created :: response where
  "task_created =
     \<lparr>status_code = 200,
      body_text = ''{\"output\": {\"task_id\": \"t-42\", \"task_status\": \"PENDING\"}}'',
      decoded = Decoded (JObj [(''output'', JObj [(''task_id'', JStr ''t-42''),
                                                  (''task_status'', JStr ''PENDING'')])])\<rparr>"

text \<open>An upstream that times out twice and then creates the task.\<close>

definition recovering :: upstream where
  "recovering n req =
     (if n < 2 then Raised (TimeoutException ''timed out'') else Responded task_created)"

definition bad_request :: response where
  "bad_request =
     \<lparr>status_code = 400, body_text = ''{\"code\": \"InvalidParameter\"}'',
      decoded = Decoded (JObj [(''code'', JStr ''InvalidParameter'')])\<rparr>"

text \<open>The error page of a gateway in front of the upstream: its text is not JSON.\<close>

definition bad_gateway :: response where
  "bad_gateway =
     \<lparr>status_code = 502, body_text = ''<html>502 Bad Gateway</html>'', decoded = NotJSON\<rparr>"

definition ok_without_id :: response where
  "ok_without_id =
     \<lparr>status_code = 200, body_text = ''{\"output\": {}}'',
      decoded = Decoded (JObj [(''output'', JObj [])])\<rparr>"

definition created_without_id :: response where
  "created_without_id =
     \<lparr>status_code = 201, body_text = ''{}'', decoded = Decoded (JObj [])\<rparr>"

definition succeeded_body :: json where
  "succeeded_body =
     JObj [(''output'', JObj [(''task_status'', JStr ''SUCCEEDED''),
                              (''video_url'', JStr ''http://x/v.mp4'')])]"

definition failed_body :: json where
  "failed_body =
     JObj [(''output'', JObj [(''task_status'', JStr ''FAILED''),
                              (''message'', JStr ''quota exceeded'')])]"

definition invalid_key_body :: json where
  "invalid_key_body =
     JObj [(''code'', JStr ''InvalidApiKey''), (''message'', JStr ''Invalid API-key provided.'')]"

text \<open>A third attempt answered with 202 and a body that has \<^verbatim>\<open>output.task_id\<close>.\<close>

definition accepted_with_id :: response where
  "accepted_with_id =
     \<lparr>status_code = 202,
      body_text = ''{\"output\": {\"task_id\": \"t-42\"}}'',
      decoded = Decoded (JObj [(''output'', JObj [(''task_id'', JStr ''t-42'')])])\<rparr>"

definition recovering_with_202 :: upstream where
  "recovering_with_202 n req =
     (if n < 2 then Raised (TimeoutException ''timed out'') else Responded accepted_with_id)"


text \<open>The phrases of the status codes the examples use.\<close>

definition sample_phrase :: "int \<Rightarrow> string option" where
  "sample_phrase c =
     (if c = 400 then Some ''Bad Request''
      else if c = 500 then Some ''Internal Server Error''
      else None)"

definition null_bad_request :: response where
  "null_bad_request = \<lparr>status_code = 400, body_text = ''null'', decoded = Decoded JNull\<rparr>"

text \<open>A formatter for runs in which only strings are formatted.\<close>

definition no_format :: "json \<Rightarrow> string" where
  "no_format v = []"

section \<open>The retry loop, one step at a time\<close>

lemma range_max_retries: "[0..<max_retries] = [0, 1, 2]"
  by (simp add: max_retries_def upt_rec)

lemma sent_count_append: "sent_count (evs @ evs') = sent_count evs + sent_count evs'"
  by (simp add: sent_count_def)

lemma sent_count_simps:
  "sent_count [] = 0"
  "sent_count (Sent r # evs) = Suc (sent_count evs)"
  "sent_count (Slept n # evs) = sent_count evs"
  "sent_count (Printed p # evs) = sent_count evs"
  by (simp_all add: sent_count_def)

lemma attempts_response:
  assumes "up (sent_count evs) req = Responded r"
  shows "attempts phrase up req (attempt # rest) evs = on_response phrase r (evs @ [Sent req])"
  using assms by (simp add: send_def)

lemma attempts_retry:
  assumes "up (sent_count evs) req = Raised e" and "is_connect_or_timeout e"
    and "attempt \<noteq> max_retries - 1"
  shows "attempts phrase up req (attempt # rest) evs =
           attempts phrase up req rest
             (evs @ [Sent req, Printed (AttemptFailed (attempt + 1) e), Slept 1])"
  using assms by (simp add: send_def Let_def)

lemma attempts_exhausted:
  assumes "up (sent_count evs) req = Raised e" and "is_connect_or_timeout e"
    and "attempt = max_retries - 1"
  shows "attempts phrase up req (attempt # rest) evs =
           (Inl (HTTPException 500 (JStr (''Network Error: '' @ str_of_error e))),
            evs @ [Sent req, Printed (AttemptFailed (attempt + 1) e),
                   Printed (NetworkErrorOccurred e)])"
  using assms by (simp add: send_def Let_def)

lemma first_attempt:
  assumes "up (sent_count evs) (create_request key data) = Responded r"
  shows "call_wan_api_create phrase key up data evs =
           on_response phrase r (evs @ [Sent (create_request key data)])"
  using assms unfolding call_wan_api_create_def range_max_retries
  by (simp add: send_def)

text \<open>Two retried failures bring the loop to its third round.\<close>

lemma two_retries:
  assumes r1: "up (sent_count evs) (create_request key data) = Raised ea"
    and r2: "up (sent_count evs + 1) (create_request key data) = Raised eb"
    and t1: "is_connect_or_timeout ea"
    and t2: "is_connect_or_timeout eb"
  shows "call_wan_api_create phrase key up data evs =
           attempts phrase up (create_request key data) [2]
             (evs @ [Sent (create_request key data), Printed (AttemptFailed 1 ea), Slept 1,
                     Sent (create_request key data), Printed (AttemptFailed 2 eb), Slept 1])"
proof -
  let ?req = "create_request key data"
  let ?evs1 = "evs @ [Sent ?req, Printed (AttemptFailed (0 + 1) ea), Slept 1]"
  have c1: "sent_count ?evs1 = sent_count evs + 1"
    by (simp add: sent_count_append sent_count_simps)
  have r2': "up (sent_count ?evs1) ?req = Raised eb"
    unfolding c1 by (rule r2)
  have n0: "(0::nat) \<noteq> max_retries - 1" and n1: "(1::nat) \<noteq> max_retries - 1"
    by (simp_all add: max_retries_def)
  have "call_wan_api_create phrase key up data evs = attempts phrase up ?req [0, 1, 2] evs"
    by (simp only: call_wan_api_create_def range_max_retries)
  also have "\<dots> = attempts phrase up ?req [1, 2] ?evs1"
    by (rule attempts_retry) (rule r1, rule t1, rule n0)
  also have "\<dots> = attempts phrase up ?req [2]
      (?evs1 @ [Sent ?req, Printed (AttemptFailed (1 + 1) eb), Slept 1])"
    by (rule attempts_retry) (rule r2', rule t2, rule n1)
  also have "?evs1 @ [Sent ?req, Printed (AttemptFailed (1 + 1) eb), Slept 1] =
      evs @ [Sent ?req, Printed (AttemptFailed 1 ea), Slept 1,
             Sent ?req, Printed (AttemptFailed 2 eb), Slept 1]"
    by simp
  finally show ?thesis .
qed

lemma sent_count_two_retries:
  "sent_count (evs @ [Sent q, Printed (AttemptFailed 1 ea), Slept 1,
                      Sent q, Printed (AttemptFailed 2 eb), Slept 1]) = sent_count evs + 2"
  by (simp add: sent_count_append sent_count_simps)

section \<open>What the handler does with a response\<close>

lemma py_getitem_Inr:
  "py_getitem j k = Inr v \<Longrightarrow> \<exists>kvs. j = JObj kvs \<and> map_of kvs k = Some v"
  by (cases j) (auto split: option.splits)

lemma path2_Some:
  assumes "path2 j k1 k2 = Some v"
  shows "\<exists>out. py_getitem j k1 = Inr out \<and> py_getitem out k2 = Inr v"
proof -
  obtain out where a: "field j k1 = Some out" and b: "field out k2 = Some v"
    using assms by (auto simp: path2_def split: option.splits)
  have "py_getitem j k1 = Inr out" using a by (cases j) auto
  moreover have "py_getitem out k2 = Inr v" using b by (cases out) auto
  ultimately show ?thesis by blast
qed

lemma on_response_rejected:
  assumes "status_code r \<noteq> 200"
  shows "on_response phrase r evs =
           (case decode_json r of
              Inl x \<Rightarrow> Inl x
            | Inr detail \<Rightarrow> Inl (new_HTTPException phrase (status_code r) detail),
            evs @ [Printed (ApiErrorResponse (body_text r))])"
  using assms by (simp add: on_response_def Let_def split: sum.splits)

lemma on_response_task_id:
  assumes "status_code r = 200" and "decoded r = Decoded j"
    and "py_getitem j ''output'' = Inr out" and "py_getitem out ''task_id'' = Inr tid"
  shows "on_response phrase r evs = (Inr tid, evs)"
proof -
  obtain kvs where j: "j = JObj kvs" and o: "map_of kvs ''output'' = Some out"
    using py_getitem_Inr [OF assms(3)] by blast
  obtain kvs' where out: "out = JObj kvs'" and t: "map_of kvs' ''task_id'' = Some tid"
    using py_getitem_Inr [OF assms(4)] by blast
  show ?thesis
    using assms(1,2) by (simp add: on_response_def decode_json_def missing_task_id_def j o out t)
qed

text \<open>
  When \<^verbatim>\<open>output.task_id\<close> is absent, the membership tests either report it, or fail on a
  value that has no \<^verbatim>\<open>in\<close>, or let through a string or list on which the subscript
  then fails.
\<close>

lemma missing_task_id_cases:
  assumes "path2 j ''output'' ''task_id'' = None"
  shows "missing_task_id j = Inr True \<or> missing_task_id j = Inl TypeError
         \<or> (missing_task_id j = Inr False
             \<and> (py_getitem j ''output'' = Inl TypeError
                 \<or> (\<exists>v. py_getitem j ''output'' = Inr v \<and> py_getitem v ''task_id'' = Inl TypeError)))"
proof (cases j)
  case (JObj kvs)
  show ?thesis
  proof (cases "map_of kvs ''output''")
    case None
    then show ?thesis by (simp add: JObj missing_task_id_def)
  next
    case (Some v)
    then show ?thesis using assms
      by (cases v) (auto simp: JObj missing_task_id_def path2_def)
  qed
qed (auto simp: missing_task_id_def)

lemma missing_task_id_object:
  assumes "path2 j ''output'' ''task_id'' = None" and "object_shaped j"
  shows "missing_task_id j = Inr True"
proof (cases j)
  case (JObj kvs)
  show ?thesis
  proof (cases "map_of kvs ''output''")
    case None
    then show ?thesis by (simp add: JObj missing_task_id_def)
  next
    case (Some v)
    then show ?thesis using assms
      by (cases v) (auto simp: JObj missing_task_id_def path2_def)
  qed
qed (use assms in auto)

lemma on_response_missing:
  assumes "status_code r = 200" and "decoded r = Decoded j"
    and "path2 j ''output'' ''task_id'' = None"
  shows "on_response phrase r evs = (Inl (HTTPException 500 (JStr ''API response missing task_id'')), evs)
         \<or> on_response phrase r evs = (Inl TypeError, evs)"
  using missing_task_id_cases [OF assms(3)] assms(1,2)
  by (auto simp: on_response_def decode_json_def)

lemma on_response_missing_object:
  assumes "status_code r = 200" and "decoded r = Decoded j"
    and "path2 j ''output'' ''task_id'' = None" and "object_shaped j"
  shows "on_response phrase r evs = (Inl (HTTPException 500 (JStr ''API response missing task_id'')), evs)"
  using missing_task_id_object [OF assms(3,4)] assms(1,2)
  by (simp add: on_response_def decode_json_def)

section \<open>Polling, by the upstream's reply\<close>

lemma check_status_responded:
  assumes "up (sent_count evs) (status_request key tid) = Responded r"
  shows "check_status key up fmt tid evs =
           (case decode_json r of Inl x \<Rightarrow> Inl x | Inr body \<Rightarrow> response_data fmt body,
            evs @ [Sent (status_request key tid)])"
  using assms
  by (simp add: check_status_def call_wan_api_status_def send_def split: sum.splits)

lemma check_status_refused:
  assumes "up (sent_count evs) (status_request key tid) = Refused x"
  shows "check_status key up fmt tid evs = (Inl x, evs)"
  using assms
  by (simp add: check_status_def call_wan_api_status_def send_def)

lemma check_status_raised:
  assumes "up (sent_count evs) (status_request key tid) = Raised e"
  shows "check_status key up fmt tid evs =
           (Inl (HTTPException 500 (JStr (str_of_error e))),
            evs @ [Sent (status_request key tid), Printed (StatusCheckNetworkError e)])"
  using assms
  by (simp add: check_status_def call_wan_api_status_def send_def)

lemma response_data_object:
  assumes "object_shaped body"
  shows "response_data fmt body = Inr (spec_report fmt body)"
proof (cases body)
  case (JObj kvs)
  show ?thesis
  proof (cases "map_of kvs ''output''")
    case None
    then show ?thesis
      by (simp add: JObj response_data_def spec_report_def path2_def Let_def split: option.splits)
  next
    case (Some v)
    then obtain out where v: "v = JObj out"
      using assms JObj by (cases v) auto
    show ?thesis
      by (simp add: JObj Some v response_data_def spec_report_def path2_def Let_def
          split: option.splits)
  qed
qed (use assms in auto)

lemma response_data_invariant:
  assumes "response_data fmt body = Inr rep"
  shows "(video_url rep \<noteq> JNull \<longrightarrow> status rep = JStr ''SUCCEEDED'')
         \<and> (take 8 (progress_msg rep) = ''Failed: '' \<longrightarrow> status rep = JStr ''FAILED'')"
  using assms
  by (auto simp: response_data_def Let_def split: sum.splits if_splits)

lemma optional_str_inject: "optional_str a = optional_str b \<Longrightarrow> a = b"
  by (cases a; cases b) simp_all

section \<open>Submission: bounded retry\<close>

text \<open>
  C1. When each of the three POSTs of a submission ends in a \<^verbatim>\<open>ConnectError\<close> or a
  \<^verbatim>\<open>TimeoutException\<close>, \<^verbatim>\<open>call_wan_api_create\<close> sends the request exactly three
  times and never a fourth, sleeps one second after the first and after the second
  failure, and raises one \<^verbatim>\<open>HTTPException\<close> with status 500 whose detail is
  \<^verbatim>\<open>Network Error: \<close> followed by the message of the third failure. The first two
  failures are only printed.
\<close>

theorem three_failures_then_network_error:
  assumes r1: "up (sent_count evs) (create_request key data) = Raised ea"
    and r2: "up (sent_count evs + 1) (create_request key data) = Raised eb"
    and r3: "up (sent_count evs + 2) (create_request key data) = Raised ec"
    and t1: "is_connect_or_timeout ea"
    and t2: "is_connect_or_timeout eb"
    and t3: "is_connect_or_timeout ec"
  shows "call_wan_api_create phrase key up data evs =
           (Inl (HTTPException 500 (JStr (''Network Error: '' @ str_of_error ec))),
            evs @ [Sent (create_request key data), Printed (AttemptFailed 1 ea), Slept 1,
                   Sent (create_request key data), Printed (AttemptFailed 2 eb), Slept 1,
                   Sent (create_request key data), Printed (AttemptFailed 3 ec),
                   Printed (NetworkErrorOccurred ec)])
         \<and> sent_count (snd (call_wan_api_create phrase key up data evs)) = sent_count evs + 3"
proof -
  let ?req = "create_request key data"
  let ?evs2 = "evs @ [Sent ?req, Printed (AttemptFailed 1 ea), Slept 1,
                      Sent ?req, Printed (AttemptFailed 2 eb), Slept 1]"
  have c2: "sent_count ?evs2 = sent_count evs + 2"
    by (rule sent_count_two_retries)
  have r3': "up (sent_count ?evs2) ?req = Raised ec"
    unfolding c2 by (rule r3)
  have "call_wan_api_create phrase key up data evs = attempts phrase up ?req [2] ?evs2"
    by (rule two_retries) fact+
  also have "\<dots> = (Inl (HTTPException 500 (JStr (''Network Error: '' @ str_of_error ec))),
      ?evs2 @ [Sent ?req, Printed (AttemptFailed (2 + 1) ec), Printed (NetworkErrorOccurred ec)])"
    by (rule attempts_exhausted) (rule r3', rule t3, simp add: max_retries_def)
  finally have run: "call_wan_api_create phrase key up data evs =
      (Inl (HTTPException 500 (JStr (''Network Error: '' @ str_of_error ec))),
       evs @ [Sent ?req, Printed (AttemptFailed 1 ea), Slept 1,
              Sent ?req, Printed (AttemptFailed 2 eb), Slept 1,
              Sent ?req, Printed (AttemptFailed 3 ec), Printed (NetworkErrorOccurred ec)])"
    by simp
  show ?thesis
    unfolding run by (simp add: sent_count_append sent_count_simps)
qed

theorem three_failures_then_network_error_witness:
  "is_connect_or_timeout (ConnectError ''All connection attempts failed'')
   \<and> fst (call_wan_api_create sample_phrase sample_key refusing sample_request []) =
       Inl (HTTPException 500 (JStr ''Network Error: All connection attempts failed''))
   \<and> sent_count (snd (call_wan_api_create sample_phrase sample_key refusing sample_request [])) = 3"
  using three_failures_then_network_error
    [where up = refusing and evs = "[]" and key = sample_key and data = sample_request
       and ea = "ConnectError ''All connection attempts failed''"
       and eb = "ConnectError ''All connection attempts failed''"
       and ec = "ConnectError ''All connection attempts failed''"]
  by (simp add: refusing_def sent_count_simps)

text \<open>
  C6, as the code has it. When the first two POSTs end in a \<^verbatim>\<open>ConnectError\<close> or a
  \<^verbatim>\<open>TimeoutException\<close> and the third is answered with status 200, the only status the
  code takes for success, and a body that has \<^verbatim>\<open>output.task_id\<close>,
  \<^verbatim>\<open>call_wan_api_create\<close> returns that task identifier after exactly three requests
  and two sleeps of one second, and raises nothing.
\<close>

theorem recovers_on_third_attempt:
  assumes r1: "up (sent_count evs) (create_request key data) = Raised ea"
    and r2: "up (sent_count evs + 1) (create_request key data) = Raised eb"
    and r3: "up (sent_count evs + 2) (create_request key data) = Responded r"
    and t1: "is_connect_or_timeout ea"
    and t2: "is_connect_or_timeout eb"
    and ok: "status_code r = 200"
    and body: "decoded r = Decoded j"
    and tid: "path2 j ''output'' ''task_id'' = Some task_id"
  shows "call_wan_api_create phrase key up data evs =
           (Inr task_id,
            evs @ [Sent (create_request key data), Printed (AttemptFailed 1 ea), Slept 1,
                   Sent (create_request key data), Printed (AttemptFailed 2 eb), Slept 1,
                   Sent (create_request key data)])"
proof -
  let ?req = "create_request key data"
  let ?evs2 = "evs @ [Sent ?req, Printed (AttemptFailed 1 ea), Slept 1,
                      Sent ?req, Printed (AttemptFailed 2 eb), Slept 1]"
  have c2: "sent_count ?evs2 = sent_count evs + 2"
    by (rule sent_count_two_retries)
  have r3': "up (sent_count ?evs2) ?req = Responded r"
    unfolding c2 by (rule r3)
  obtain out where out: "py_getitem j ''output'' = Inr out"
    and id: "py_getitem out ''task_id'' = Inr task_id"
    using path2_Some [OF tid] by blast
  have "call_wan_api_create phrase key up data evs = attempts phrase up ?req [2] ?evs2"
    by (rule two_retries) fact+
  also have "\<dots> = on_response phrase r (?evs2 @ [Sent ?req])"
    by (rule attempts_response) (rule r3')
  also have "\<dots> = (Inr task_id, ?evs2 @ [Sent ?req])"
    by (rule on_response_task_id [OF ok body out id])
  finally show ?thesis by simp
qed

theorem recovers_on_third_attempt_witness:
  "is_connect_or_timeout (TimeoutException ''timed out'')
   \<and> status_code task_created = 200
   \<and> call_wan_api_create sample_phrase sample_key recovering sample_request [] =
       (Inr (JStr ''t-42''),
        [Sent (create_request sample_key sample_request),
         Printed (AttemptFailed 1 (TimeoutException ''timed out'')), Slept 1,
         Sent (create_request sample_key sample_request),
         Printed (AttemptFailed 2 (TimeoutException ''timed out'')), Slept 1,
         Sent (create_request sample_key sample_request)])"
  using recovers_on_third_attempt
    [where up = recovering and evs = "[]" and key = sample_key and data = sample_request
       and ea = "TimeoutException ''timed out''" and eb = "TimeoutException ''timed out''"
       and r = task_created and task_id = "JStr ''t-42''" and phrase = sample_phrase
       and j = "JObj [(''output'', JObj [(''task_id'', JStr ''t-42''),
                                          (''task_status'', JStr ''PENDING'')])]"]
  by (simp add: recovering_def sent_count_simps task_created_def path2_def)

text \<open>
  Status 202 is a success status of HTTP. After two timeouts, a third attempt answered
  with 202 and a body that has \<^verbatim>\<open>output.task_id\<close> takes the branch for rejected
  requests: the task identifier is not returned, and an \<^verbatim>\<open>HTTPException\<close> with status
  202 is raised.
\<close>

theorem third_attempt_202_counterexample:
  "status_code accepted_with_id = 202
   \<and> decoded accepted_with_id = Decoded (JObj [(''output'', JObj [(''task_id'', JStr ''t-42'')])])
   \<and> path2 (JObj [(''output'', JObj [(''task_id'', JStr ''t-42'')])]) ''output'' ''task_id''
       = Some (JStr ''t-42'')
   \<and> call_wan_api_create sample_phrase sample_key recovering_with_202 sample_request [] =
       (Inl (HTTPException 202 (JObj [(''output'', JObj [(''task_id'', JStr ''t-42'')])])),
        [Sent (create_request sample_key sample_request),
         Printed (AttemptFailed 1 (TimeoutException ''timed out'')), Slept 1,
         Sent (create_request sample_key sample_request),
         Printed (AttemptFailed 2 (TimeoutException ''timed out'')), Slept 1,
         Sent (create_request sample_key sample_request),
         Printed (ApiErrorResponse (body_text accepted_with_id))])"
proof -
  let ?req = "create_request sample_key sample_request"
  let ?t = "TimeoutException ''timed out''"
  let ?evs2 = "[] @ [Sent ?req, Printed (AttemptFailed 1 ?t), Slept 1,
                     Sent ?req, Printed (AttemptFailed 2 ?t), Slept 1]"
  have c2: "sent_count ?evs2 = 2"
    by (simp add: sent_count_simps)
  have r3: "recovering_with_202 (sent_count ?evs2) ?req = Responded accepted_with_id"
    unfolding c2 by (simp add: recovering_with_202_def)
  have "call_wan_api_create sample_phrase sample_key recovering_with_202 sample_request [] =
      attempts sample_phrase recovering_with_202 ?req [2] ?evs2"
    by (rule two_retries) (simp_all add: recovering_with_202_def sent_count_simps)
  also have "\<dots> = on_response sample_phrase accepted_with_id (?evs2 @ [Sent ?req])"
    by (rule attempts_response) (rule r3)
  finally show ?thesis
    by (simp add: on_response_def decode_json_def new_HTTPException_def accepted_with_id_def
        path2_def)
qed

section \<open>Submission: responses that end it at once\<close>

text \<open>
  C2, as the code has it. When the first POST is answered with a status other than 200,
  \<^verbatim>\<open>call_wan_api_create\<close> sends exactly one request, prints the raw body and does not
  retry. When the body decodes to a JSON value other than \<^verbatim>\<open>null\<close>, the
  \<^verbatim>\<open>HTTPException\<close> it raises carries the upstream's status code and the decoded body as
  detail. For the body \<^verbatim>\<open>null\<close> the constructor puts the phrase of the status code in
  the place of the detail, and for a body that does not decode \<^verbatim>\<open>response.json()\<close>
  raises while the exception is being built.
\<close>

theorem rejected_without_retry:
  assumes "up (sent_count evs) (create_request key data) = Responded r"
    and "status_code r \<noteq> 200"
  shows "snd (call_wan_api_create phrase key up data evs) =
           evs @ [Sent (create_request key data), Printed (ApiErrorResponse (body_text r))]
         \<and> sent_count (snd (call_wan_api_create phrase key up data evs)) = sent_count evs + 1
         \<and> fst (call_wan_api_create phrase key up data evs) =
             (case decode_json r of
                Inl x \<Rightarrow> Inl x
              | Inr detail \<Rightarrow> Inl (new_HTTPException phrase (status_code r) detail))
         \<and> (decoded r = Decoded detail \<and> detail \<noteq> JNull \<longrightarrow>
              fst (call_wan_api_create phrase key up data evs) =
                Inl (HTTPException (status_code r) detail))"
proof -
  have "call_wan_api_create phrase key up data evs =
          on_response phrase r (evs @ [Sent (create_request key data)])"
    by (rule first_attempt) (rule assms(1))
  then show ?thesis
    by (simp add: on_response_rejected [OF assms(2)] sent_count_append sent_count_simps
        decode_json_def new_HTTPException_def)
qed

theorem rejected_without_retry_witness:
  "status_code bad_request \<noteq> 200
   \<and> decoded bad_request = Decoded (JObj [(''code'', JStr ''InvalidParameter'')])
   \<and> JObj [(''code'', JStr ''InvalidParameter'')] \<noteq> JNull
   \<and> call_wan_api_create sample_phrase sample_key (always bad_request) sample_request [] =
       (Inl (HTTPException 400 (JObj [(''code'', JStr ''InvalidParameter'')])),
        [Sent (create_request sample_key sample_request),
         Printed (ApiErrorResponse (body_text bad_request))])"
  using rejected_without_retry
    [where up = "always bad_request" and evs = "[]" and key = sample_key
       and data = sample_request and r = bad_request and phrase = sample_phrase
       and detail = "JObj [(''code'', JStr ''InvalidParameter'')]"]
  by (simp add: always_def bad_request_def prod_eq_iff decode_json_def new_HTTPException_def)

text \<open>
  The claim as the spec words it promises the upstream's status code and body for every
  non-success response. A 502 whose body is a gateway's HTML page is answered by a
  \<^verbatim>\<open>JSONDecodeError\<close>, which carries neither; a 400 whose body is \<^verbatim>\<open>null\<close> is answered
  by an exception whose detail is the phrase of the status code, not the body.
\<close>

theorem rejected_undecodable_counterexample:
  "status_code bad_gateway = 502
   \<and> call_wan_api_create sample_phrase sample_key (always bad_gateway) sample_request [] =
       (Inl JSONDecodeError,
        [Sent (create_request sample_key sample_request),
         Printed (ApiErrorResponse ''<html>502 Bad Gateway</html>'')])
   \<and> status_code null_bad_request = 400
   \<and> decoded null_bad_request = Decoded JNull
   \<and> call_wan_api_create sample_phrase sample_key (always null_bad_request) sample_request [] =
       (Inl (HTTPException 400 (JStr ''Bad Request'')),
        [Sent (create_request sample_key sample_request),
         Printed (ApiErrorResponse ''null'')])"
  unfolding call_wan_api_create_def range_max_retries
  by (simp add: send_def always_def bad_gateway_def null_bad_request_def on_response_def
      decode_json_def new_HTTPException_def sample_phrase_def)

text \<open>
  C7, as the code has it. The only status the code takes for success is 200. When the
  first POST is answered with status 200 and a decoded body without
  \<^verbatim>\<open>output.task_id\<close>, \<^verbatim>\<open>call_wan_api_create\<close> sends exactly one request and fails
  without a retry. For a body that is an object whose \<^verbatim>\<open>output\<close> is absent or an
  object, the failure is the \<^verbatim>\<open>HTTPException\<close> with status 500 and detail
  \<^verbatim>\<open>API response missing task_id\<close>; for a body of another shape it is that exception or
  the \<^verbatim>\<open>TypeError\<close> of the membership test or of the subscript.
\<close>

theorem missing_task_id_without_retry:
  assumes "up (sent_count evs) (create_request key data) = Responded r"
    and "status_code r = 200"
    and "decoded r = Decoded j"
    and "path2 j ''output'' ''task_id'' = None"
  shows "snd (call_wan_api_create phrase key up data evs) = evs @ [Sent (create_request key data)]
         \<and> sent_count (snd (call_wan_api_create phrase key up data evs)) = sent_count evs + 1
         \<and> (fst (call_wan_api_create phrase key up data evs) =
               Inl (HTTPException 500 (JStr ''API response missing task_id''))
             \<or> fst (call_wan_api_create phrase key up data evs) = Inl TypeError)
         \<and> (object_shaped j \<longrightarrow>
               fst (call_wan_api_create phrase key up data evs) =
                 Inl (HTTPException 500 (JStr ''API response missing task_id'')))"
proof -
  let ?evs = "evs @ [Sent (create_request key data)]"
  have run: "call_wan_api_create phrase key up data evs = on_response phrase r ?evs"
    by (rule first_attempt) (rule assms(1))
  show ?thesis
    using on_response_missing [OF assms(2,3,4), where evs = ?evs and phrase = phrase]
      on_response_missing_object [OF assms(2,3,4), where evs = ?evs and phrase = phrase]
    by (auto simp: run sent_count_append sent_count_simps)
qed

theorem missing_task_id_without_retry_witness:
  "status_code ok_without_id = 200
   \<and> object_shaped (JObj [(''output'', JObj [])])
   \<and> call_wan_api_create sample_phrase sample_key (always ok_without_id) sample_request [] =
       (Inl (HTTPException 500 (JStr ''API response missing task_id'')),
        [Sent (create_request sample_key sample_request)])"
  using missing_task_id_without_retry
    [where up = "always ok_without_id" and evs = "[]" and key = sample_key
       and data = sample_request and r = ok_without_id and phrase = sample_phrase
       and j = "JObj [(''output'', JObj [])]"]
  by (simp add: always_def ok_without_id_def path2_def prod_eq_iff)

text \<open>
  Status 201 is a success status of HTTP. A 201 whose body has no \<^verbatim>\<open>output.task_id\<close>
  takes the branch for rejected requests: the exception raised has status 201 and the
  body as detail, not status 500.
\<close>

theorem success_status_201_counterexample:
  "status_code created_without_id = 201
   \<and> path2 (JObj []) ''output'' ''task_id'' = None
   \<and> call_wan_api_create sample_phrase sample_key (always created_without_id) sample_request [] =
       (Inl (HTTPException 201 (JObj [])),
        [Sent (create_request sample_key sample_request), Printed (ApiErrorResponse ''{}'')])"
  unfolding call_wan_api_create_def range_max_retries
  by (simp add: send_def always_def created_without_id_def on_response_def decode_json_def
      new_HTTPException_def path2_def)

section \<open>The payload sent upstream\<close>

text \<open>
  C4. The payload carries each field of the request at its path: \<^verbatim>\<open>input.prompt\<close>,
  \<^verbatim>\<open>input.negative_prompt\<close>, \<^verbatim>\<open>parameters.size\<close>, \<^verbatim>\<open>parameters.duration\<close>,
  \<^verbatim>\<open>parameters.prompt_extend\<close> and \<^verbatim>\<open>parameters.audio\<close>, and it is the JSON body of
  the request that is sent. An absent \<^verbatim>\<open>negative_prompt\<close> stays \<^verbatim>\<open>None\<close> and a given one,
  the empty string too, stays the string it is; no two different requests have the same
  payload.
\<close>

theorem payload_fields:
  "path2 (payload d) ''input'' ''prompt'' = Some (JStr (prompt d))
   \<and> path2 (payload d) ''input'' ''negative_prompt'' =
       Some (case negative_prompt d of None \<Rightarrow> JNull | Some s \<Rightarrow> JStr s)
   \<and> path2 (payload d) ''parameters'' ''size'' = Some (JStr (size d))
   \<and> path2 (payload d) ''parameters'' ''duration'' = Some (JNum (duration d))
   \<and> path2 (payload d) ''parameters'' ''prompt_extend'' = Some (JBool (prompt_extend d))
   \<and> path2 (payload d) ''parameters'' ''audio'' = Some (JBool (audio d))
   \<and> json_body (create_request key d) = Some (payload d)
   \<and> (payload d = payload d' \<longrightarrow> d = d')"
proof -
  have inj: "payload d = payload d' \<longrightarrow> d = d'"
    by (cases d; cases d') (auto simp: payload_def dest: optional_str_inject)
  have neg: "optional_str (negative_prompt d) =
      (case negative_prompt d of None \<Rightarrow> JNull | Some s \<Rightarrow> JStr s)"
    by (cases "negative_prompt d") simp_all
  show ?thesis
    using inj by (simp add: payload_def path2_def create_request_def neg)
qed

theorem payload_fields_witness:
  "path2 (payload (sample_request\<lparr>negative_prompt := Some []\<rparr>)) ''input'' ''negative_prompt''
     = Some (JStr [])
   \<and> path2 (payload sample_request) ''input'' ''negative_prompt'' = Some JNull
   \<and> payload (sample_request\<lparr>negative_prompt := Some []\<rparr>) \<noteq> payload sample_request"
  using payload_fields [of "sample_request\<lparr>negative_prompt := Some []\<rparr>" sample_key sample_request]
    payload_fields [of sample_request sample_key sample_request]
  by (auto simp: sample_request_def)

section \<open>The credential\<close>

text \<open>
  C5. When no credential is configured (\<^verbatim>\<open>API_KEY\<close> is \<^verbatim>\<open>None\<close> or empty),
  \<^verbatim>\<open>generate_video\<close> raises the \<^verbatim>\<open>HTTPException\<close> with detail
  \<^verbatim>\<open>API Key not configured on server.\<close> and leaves the run as it was: no request is
  sent.
\<close>

theorem missing_key_no_network_call:
  assumes "py_not key"
  shows "generate_video phrase key up data evs =
           (Inl (HTTPException 500 (JStr ''API Key not configured on server.'')), evs)
         \<and> sent_count (snd (generate_video phrase key up data evs)) = sent_count evs"
  using assms by (simp add: generate_video_def)

theorem missing_key_no_network_call_witness:
  "py_not None
   \<and> generate_video sample_phrase None (always task_created) sample_request [] =
       (Inl (HTTPException 500 (JStr ''API Key not configured on server.'')), [])
   \<and> sent_count (snd (generate_video sample_phrase None (always task_created) sample_request [])) = 0"
  using missing_key_no_network_call
    [where key = None and up = "always task_created" and data = sample_request
       and evs = "[]" and phrase = sample_phrase]
  by (simp add: sent_count_simps)




section \<open>Status translation\<close>

text \<open>
  C3, as the code has it. For every upstream body that is a JSON object whose
  \<^verbatim>\<open>output\<close> member is absent or is itself an object, the translation returns the report
  the spec describes: the status is \<^verbatim>\<open>output.task_status\<close> or \<^verbatim>\<open>UNKNOWN\<close> when absent;
  for \<^verbatim>\<open>SUCCEEDED\<close> the video URL is \<^verbatim>\<open>output.video_url\<close> and the message is
  \<^verbatim>\<open>Completed\<close>; for \<^verbatim>\<open>FAILED\<close> the message is \<^verbatim>\<open>Failed: \<close> followed by
  \<^verbatim>\<open>output.message\<close> (as Python formats it) or by \<^verbatim>\<open>Unknown error\<close> when absent, and
  the video URL is unset; for every other status the message is \<^verbatim>\<open>Processing...\<close> and
  the video URL is unset.
\<close>

theorem status_translation:
  assumes "object_shaped body"
  shows "response_data fmt body = Inr (spec_report fmt body)"
  using assms by (rule response_data_object)

theorem status_translation_witness:
  "object_shaped succeeded_body \<and> object_shaped failed_body
   \<and> object_shaped (JObj [(''output'', JObj [])])
   \<and> response_data no_format succeeded_body =
       Inr \<lparr>status = JStr ''SUCCEEDED'', progress_msg = ''Completed'',
            video_url = JStr ''http://x/v.mp4'', usage = JObj []\<rparr>
   \<and> response_data no_format failed_body =
       Inr \<lparr>status = JStr ''FAILED'', progress_msg = ''Failed: quota exceeded'',
            video_url = JNull, usage = JObj []\<rparr>
   \<and> response_data no_format (JObj [(''output'', JObj [])]) =
       Inr \<lparr>status = JStr ''UNKNOWN'', progress_msg = ''Processing...'',
            video_url = JNull, usage = JObj []\<rparr>"
  using status_translation [of succeeded_body no_format]
    status_translation [of failed_body no_format]
    status_translation [of "JObj [(''output'', JObj [])]" no_format]
  by (simp add: succeeded_body_def failed_body_def spec_report_def path2_def)

text \<open>
  For the body \<^verbatim>\<open>{"output": null}\<close> the path \<^verbatim>\<open>output.task_status\<close> is absent and the
  spec's report has status \<^verbatim>\<open>UNKNOWN\<close>; the code calls \<^verbatim>\<open>.get\<close> on \<^verbatim>\<open>None\<close> and raises
  \<^verbatim>\<open>AttributeError\<close>.
\<close>

theorem null_output_counterexample:
  "path2 (JObj [(''output'', JNull)]) ''output'' ''task_status'' = None
   \<and> status (spec_report no_format (JObj [(''output'', JNull)])) = JStr ''UNKNOWN''
   \<and> response_data no_format (JObj [(''output'', JNull)]) = Inl AttributeError"
  by (simp add: path2_def spec_report_def response_data_def)

text \<open>
  C8. In every report \<^verbatim>\<open>check_status\<close> returns, a video URL that is set comes with the
  status \<^verbatim>\<open>SUCCEEDED\<close>, and a message that begins with \<^verbatim>\<open>Failed: \<close> (its first eight
  characters) comes with the status \<^verbatim>\<open>FAILED\<close>.
\<close>

theorem report_invariant:
  assumes "check_status key up fmt tid evs = (Inr rep, evs')"
  shows "(video_url rep \<noteq> JNull \<longrightarrow> status rep = JStr ''SUCCEEDED'')
         \<and> (take 8 (progress_msg rep) = ''Failed: '' \<longrightarrow> status rep = JStr ''FAILED'')"
proof (cases "up (sent_count evs) (status_request key tid)")
  case (Raised e)
  have "check_status key up fmt tid evs =
          (Inl (HTTPException 500 (JStr (str_of_error e))),
           evs @ [Sent (status_request key tid), Printed (StatusCheckNetworkError e)])"
    by (rule check_status_raised) (rule Raised)
  with assms show ?thesis by simp
next
  case (Responded r)
  have run: "check_status key up fmt tid evs =
          (case decode_json r of Inl x \<Rightarrow> Inl x | Inr body \<Rightarrow> response_data fmt body,
           evs @ [Sent (status_request key tid)])"
    by (rule check_status_responded) (rule Responded)
  then obtain body where "response_data fmt body = Inr rep"
    using assms by (auto split: sum.splits)
  then show ?thesis by (rule response_data_invariant)
next
  case (Refused x)
  have "check_status key up fmt tid evs = (Inl x, evs)"
    by (rule check_status_refused) (rule Refused)
  with assms show ?thesis by simp
qed

theorem report_invariant_witness:
  "check_status None (replying 200 succeeded_body) no_format ''t-42'' [] =
     (Inr \<lparr>status = JStr ''SUCCEEDED'', progress_msg = ''Completed'',
           video_url = JStr ''http://x/v.mp4'', usage = JObj []\<rparr>,
      [Sent (status_request None ''t-42'')])
   \<and> check_status None (replying 200 failed_body) no_format ''t-42'' [] =
     (Inr \<lparr>status = JStr ''FAILED'', progress_msg = ''Failed: quota exceeded'',
           video_url = JNull, usage = JObj []\<rparr>,
      [Sent (status_request None ''t-42'')])
   \<and> JStr ''http://x/v.mp4'' \<noteq> JNull
   \<and> take 8 ''Failed: quota exceeded'' = ''Failed: ''"
proof -
  have run1: "check_status None (replying 200 succeeded_body) no_format ''t-42'' [] =
     (Inr \<lparr>status = JStr ''SUCCEEDED'', progress_msg = ''Completed'',
           video_url = JStr ''http://x/v.mp4'', usage = JObj []\<rparr>,
      [Sent (status_request None ''t-42'')])"
    by (simp add: check_status_def call_wan_api_status_def send_def replying_def
        decode_json_def response_data_def succeeded_body_def)
  have run2: "check_status None (replying 200 failed_body) no_format ''t-42'' [] =
     (Inr \<lparr>status = JStr ''FAILED'', progress_msg = ''Failed: quota exceeded'',
           video_url = JNull, usage = JObj []\<rparr>,
      [Sent (status_request None ''t-42'')])"
    by (simp add: check_status_def call_wan_api_status_def send_def replying_def
        decode_json_def response_data_def failed_body_def)
  show ?thesis
    using report_invariant [OF run1] report_invariant [OF run2] run1 run2 by simp
qed

text \<open>
  C9, as the code has it. \<^verbatim>\<open>check_status\<close> never reads the upstream's status code. For
  every upstream response whose body decodes to a JSON object whose \<^verbatim>\<open>output\<close> member is
  absent or an object, it returns the report of that body, the same for every status
  code, after one GET; when the body has no \<^verbatim>\<open>output.task_status\<close>, as an upstream
  error body has none, the report has status \<^verbatim>\<open>UNKNOWN\<close>, the message
  \<^verbatim>\<open>Processing...\<close> and no video URL.
\<close>

theorem poll_ignores_status_code:
  assumes "up (sent_count evs) (status_request key tid) = Responded r"
    and "decoded r = Decoded body"
    and "object_shaped body"
  shows "check_status key up fmt tid evs =
           (Inr (spec_report fmt body), evs @ [Sent (status_request key tid)])
         \<and> check_status key (replying c body) fmt tid evs =
           (Inr (spec_report fmt body), evs @ [Sent (status_request key tid)])
         \<and> (path2 body ''output'' ''task_status'' = None \<longrightarrow>
              status (spec_report fmt body) = JStr ''UNKNOWN''
              \<and> progress_msg (spec_report fmt body) = ''Processing...''
              \<and> video_url (spec_report fmt body) = JNull)"
proof -
  have a: "check_status key up fmt tid evs =
      (case decode_json r of Inl x \<Rightarrow> Inl x | Inr body \<Rightarrow> response_data fmt body,
       evs @ [Sent (status_request key tid)])"
    by (rule check_status_responded) (rule assms(1))
  have b: "check_status key (replying c body) fmt tid evs =
      (response_data fmt body, evs @ [Sent (status_request key tid)])"
    by (simp add: check_status_def call_wan_api_status_def send_def replying_def decode_json_def)
  show ?thesis
    by (simp add: a b assms(2) decode_json_def response_data_object [OF assms(3)]
        spec_report_def)
qed

theorem poll_ignores_status_code_witness:
  "object_shaped invalid_key_body
   \<and> path2 invalid_key_body ''output'' ''task_status'' = None
   \<and> check_status None (replying 401 invalid_key_body) no_format ''t-42'' [] =
       (Inr \<lparr>status = JStr ''UNKNOWN'', progress_msg = ''Processing...'',
             video_url = JNull, usage = JObj []\<rparr>,
        [Sent (status_request None ''t-42'')])"
  using poll_ignores_status_code
    [where up = "replying 401 invalid_key_body" and evs = "[]" and key = None
       and tid = "''t-42''" and body = invalid_key_body and fmt = no_format and c = 401
       and r = "\<lparr>status_code = 401, body_text = [], decoded = Decoded invalid_key_body\<rparr>"]
  by (simp add: replying_def invalid_key_body_def spec_report_def path2_def)

text \<open>
  A response that parses as JSON need not be an object. For a 503 whose body is the JSON
  string \<^verbatim>\<open>"Service Unavailable"\<close>, \<^verbatim>\<open>result.get\<close> raises \<^verbatim>\<open>AttributeError\<close> and no
  report is returned.
\<close>

theorem non_object_body_counterexample:
  "check_status sample_key (replying 503 (JStr ''Service Unavailable'')) no_format ''t-42'' [] =
     (Inl AttributeError, [Sent (status_request sample_key ''t-42'')])"
  by (simp add: check_status_def call_wan_api_status_def send_def replying_def decode_json_def
      response_data_def)

end
